theory Spec2Isabelle
  imports
    Main
    "HOL-Library.Multiset"
    "HOL-Library.Sublist"
    "HOL-Library.Char_ord"
    "HOL-Library.List_Lexorder"
begin

section \<open>Developer tooling scripts: build, format, lint\<close>

text \<open>
  A shallow embedding of \<^verbatim>\<open>scripts/build.py\<close>, \<^verbatim>\<open>scripts/format.py\<close> and
  \<^verbatim>\<open>scripts/lint.py\<close>. The scripts are wrappers around external tools, so everything
  the outside world decides is a parameter of the model: the directory tree, the
  child processes (an oracle from argument vector to exit code and captured text, already
  decoded), the environment variable, the processor count and the order in which the
  event loop lets tasks run.
\<close>

subsection \<open>Paths and outcomes\<close>

text \<open>
  A path is the tuple \<^verbatim>\<open>Path.parts\<close>. Python orders paths by comparing these tuples,
  which is the lexicographic order on lists of strings used here.
\<close>

type_synonym path = "string list"

text \<open>\<^verbatim>\<open>Path.name\<close>: the last part, or the empty string.\<close>

definition name :: "path \<Rightarrow> string" where
  "name p = (if p = [] then [] else last p)"

text \<open>\<^verbatim>\<open>str(path)\<close> on POSIX: the parts joined by a slash, after the root if there is one.\<close>

fun join_parts :: "path \<Rightarrow> string" where
  "join_parts [] = []"
| "join_parts [x] = x"
| "join_parts (x # y # ys) = x @ ''/'' @ join_parts (y # ys)"

definition str_path :: "path \<Rightarrow> string" where
  "str_path p =
     (case p of
        [] \<Rightarrow> ''.''
      | r # rest \<Rightarrow> if r = ''/'' then ''/'' @ join_parts rest else join_parts p)"

text \<open>
  What a script run comes to: a normal return of \<^verbatim>\<open>main\<close> (process status 0), a
  \<^verbatim>\<open>sys.exit(n)\<close>, an exception nobody catches, or a run that has not returned.
\<close>

datatype error =
    ValueError
  | CalledProcessError int
  | NotADirectoryError
  | FileExistsError
  | FileNotFoundError
  | IsADirectoryError
  | UnicodeDecodeError
  | MarkupError

datatype 'a outcome = Returns 'a | Exits int | Raises error | Pending

subsection \<open>File discovery (format.py and lint.py, \<^verbatim>\<open>find_cpp_files\<close>)\<close>

text \<open>
  \<^verbatim>\<open>project_dir.rglob("*" + ext)\<close>: the walk of the tree below \<^verbatim>\<open>project_dir\<close> yields
  every entry once, as \<^verbatim>\<open>project_dir / rel\<close>; the pattern keeps the entries whose last
  part ends with \<^verbatim>\<open>ext\<close>. The parameter \<open>tree\<close> lists the relative paths of the
  entries in the order of the walk.
\<close>

definition rglob :: "path \<Rightarrow> path list \<Rightarrow> string \<Rightarrow> path list" where
  "rglob project_dir tree ext =
     map (\<lambda>rel. project_dir @ rel) (filter (\<lambda>rel. rel \<noteq> [] \<and> suffix ext (last rel)) tree)"

text \<open>\<^verbatim>\<open>any(excluded in file.parts for excluded in exclude_dirs)\<close>\<close>

definition in_excluded_dir :: "string list \<Rightarrow> path \<Rightarrow> bool" where
  "in_excluded_dir exclude_dirs file = list_ex (\<lambda>excluded. excluded \<in> set file) exclude_dirs"

text \<open>The inner loop over the matches of one pattern, appending to \<^verbatim>\<open>files\<close>.\<close>

fun scan_matches :: "string list \<Rightarrow> path list \<Rightarrow> path list \<Rightarrow> path list" where
  "scan_matches exclude_dirs [] files = files"
| "scan_matches exclude_dirs (file # rest) files =
     (if in_excluded_dir exclude_dirs file then scan_matches exclude_dirs rest files
      else scan_matches exclude_dirs rest (files @ [file]))"

text \<open>
  The outer loop over \<^verbatim>\<open>extensions\<close>. The source iterates a Python set, whose order is
  not fixed; the list \<open>extensions\<close> is the order of that iteration.
\<close>

fun scan_extensions ::
  "string list \<Rightarrow> path \<Rightarrow> path list \<Rightarrow> string list \<Rightarrow> path list \<Rightarrow> path list" where
  "scan_extensions exclude_dirs project_dir tree [] files = files"
| "scan_extensions exclude_dirs project_dir tree (ext # exts) files =
     scan_extensions exclude_dirs project_dir tree exts
       (scan_matches exclude_dirs (rglob project_dir tree ext) files)"

definition find_cpp_files :: "string list \<Rightarrow> string list \<Rightarrow> path \<Rightarrow> path list \<Rightarrow> path list" where
  "find_cpp_files extensions exclude_dirs project_dir tree =
     sort (scan_extensions exclude_dirs project_dir tree extensions [])"

definition format_extensions :: "string list" where
  "format_extensions = [''.h'', ''.hpp'', ''.cc'', ''.cpp'', ''.cxx'']"

definition lint_extensions :: "string list" where
  "lint_extensions = [''.cc'', ''.cpp'', ''.cxx'']"

definition exclude_dirs :: "string list" where
  "exclude_dirs = [''build'', ''vcpkg_installed'', ''.cache'', ''.git'']"

subsection \<open>Console output and child processes\<close>

text \<open>
  What the scripts print, as far as the claims need it. Tables, panels and progress bars
  are presentation only and are left out. The console renders what it is given as Rich
  markup. A line made of fixed text and of paths of the project is taken to be rendered.
  A line that holds text written by a child process is rendered only if Rich accepts that
  text as markup; otherwise \<^verbatim>\<open>console.print\<close> raises \<^verbatim>\<open>MarkupError\<close>. Rich is
  outside the repository, so which lines it accepts is a parameter of the model.
\<close>

datatype line =
    Running "string list"
  | Dim string
  | ErrorRunning "string list" int
  | ErrorOutput string
  | Output string
  | Info string
  | Passed string
  | Failed string
  | FileHeader string
  | Text string

text \<open>\<^verbatim>\<open>subprocess.CompletedProcess\<close> with captured, decoded text.\<close>

record completed =
  returncode :: int
  stdout :: string
  stderr :: string

text \<open>\<^verbatim>\<open>str.strip()\<close> on ASCII text.\<close>

definition is_space :: "char \<Rightarrow> bool" where
  "is_space c = (c \<in> set [CHR '' '', CHR 0x09, CHR 0x0A, CHR 0x0B, CHR 0x0C, CHR 0x0D,
                            CHR 0x1C, CHR 0x1D, CHR 0x1E, CHR 0x1F])"

definition strip :: "string \<Rightarrow> string" where
  "strip s = rev (dropWhile is_space (rev (dropWhile is_space s)))"

text \<open>\<^verbatim>\<open>str(n)\<close> for an integer: decimal digits, with a minus sign below zero.\<close>

definition digit_char :: "nat \<Rightarrow> char" where
  "digit_char d = ''0123456789'' ! d"

function str_nat :: "nat \<Rightarrow> string" where
  "str_nat n = (if n < 10 then [digit_char n] else str_nat (n div 10) @ [digit_char (n mod 10)])"
  by pat_completeness auto
termination
  by (relation "measure (\<lambda>n. n)") auto

definition str_int :: "int \<Rightarrow> string" where
  "str_int i = (if i < 0 then CHR ''-'' # str_nat (nat (- i)) else str_nat (nat i))"

text \<open>
  \<^verbatim>\<open>bytes.decode()\<close>: strict UTF-8. The text is kept in its UTF-8 encoding, so decoding
  checks that the bytes are well formed and returns them. \<open>utf8_head\<close> takes one
  well-formed sequence off the front: one byte below 80, or a lead byte C2 to F4 with its
  continuation bytes, where the first continuation byte is narrowed after E0, ED, F0 and F4
  (no overlong forms, no surrogates, nothing above U+10FFFF).
\<close>

definition byte_in :: "nat \<Rightarrow> nat \<Rightarrow> char \<Rightarrow> bool" where
  "byte_in lo hi c = (lo \<le> of_char c \<and> (of_char c :: nat) \<le> hi)"

definition utf8_head :: "string \<Rightarrow> string option" where
  "utf8_head s =
     (case s of
        [] \<Rightarrow> None
      | a # rest \<Rightarrow>
          if byte_in 0x00 0x7F a then Some rest
          else if byte_in 0xC2 0xDF a then
            (case rest of
               b # r \<Rightarrow> if byte_in 0x80 0xBF b then Some r else None
             | _ \<Rightarrow> None)
          else if byte_in 0xE0 0xEF a then
            (case rest of
               b # c # r \<Rightarrow>
                 if byte_in (if of_char a = (0xE0::nat) then 0xA0 else 0x80)
                            (if of_char a = (0xED::nat) then 0x9F else 0xBF) b
                    \<and> byte_in 0x80 0xBF c
                 then Some r else None
             | _ \<Rightarrow> None)
          else if byte_in 0xF0 0xF4 a then
            (case rest of
               b # c # d # r \<Rightarrow>
                 if byte_in (if of_char a = (0xF0::nat) then 0x90 else 0x80)
                            (if of_char a = (0xF4::nat) then 0x8F else 0xBF) b
                    \<and> byte_in 0x80 0xBF c \<and> byte_in 0x80 0xBF d
                 then Some r else None
             | _ \<Rightarrow> None)
          else None)"

function utf8_valid :: "string \<Rightarrow> bool" where
  "utf8_valid s =
     (if s = [] then True
      else (case utf8_head s of None \<Rightarrow> False | Some r \<Rightarrow> utf8_valid r))"
  by pat_completeness auto
termination
  by (relation "measure length") (auto simp: utf8_head_def split: list.splits if_splits)

declare utf8_valid.simps [simp del]

definition decode_utf8 :: "string \<Rightarrow> string option" where
  "decode_utf8 bytes = (if utf8_valid bytes then Some bytes else None)"

subsection \<open>build.py\<close>

text \<open>
  The file system as the build script sees it: a partial map from paths to the kind of
  entry found there. The console is part of the state the script threads through.
\<close>

datatype node = File | Dir

type_synonym filesystem = "path \<Rightarrow> node option"

record world =
  fs :: filesystem
  console :: "line list"

definition exists :: "filesystem \<Rightarrow> path \<Rightarrow> bool" where
  "exists f p = (f p \<noteq> None)"

definition print :: "line \<Rightarrow> world \<Rightarrow> world" where
  "print l w = w\<lparr>console := console w @ [l]\<rparr>"

text \<open>
  What \<^verbatim>\<open>subprocess.run(cmd, capture_output=True, text=True)\<close> makes of a child process
  of the build: the executable cannot be started; or the child ends with an exit code but its
  output does not decode in the encoding of the locale; or the child ends and its output
  decodes. The oracle takes the argument vector, the working directory and the file system,
  and leaves a file system behind.
\<close>

datatype run_result = NotStarted | Undecodable int | Finished completed

type_synonym process = "string list \<Rightarrow> path \<Rightarrow> filesystem \<Rightarrow> run_result \<times> filesystem"


text \<open>
  \<^verbatim>\<open>run_command\<close>. With \<^verbatim>\<open>check=True\<close> a non-zero exit raises
  \<^verbatim>\<open>CalledProcessError\<close>, whose handler prints and calls \<^verbatim>\<open>sys.exit(1)\<close>. A missing
  executable raises \<^verbatim>\<open>FileNotFoundError\<close> and undecodable output raises
  \<^verbatim>\<open>UnicodeDecodeError\<close>; the handler catches neither, nor the \<^verbatim>\<open>MarkupError\<close> of a
  line that holds the child's output and that Rich does not accept (\<open>accepts\<close>).
\<close>

definition run_command ::
  "(line \<Rightarrow> bool) \<Rightarrow> process \<Rightarrow> string list \<Rightarrow> path \<Rightarrow> bool \<Rightarrow> world
     \<Rightarrow> completed outcome \<times> world" where
  "run_command accepts proc cmd cwd check w =
     (let w1 = print (Running cmd) w in
      case proc cmd cwd (fs w1) of
        (NotStarted, fs') \<Rightarrow> (Raises FileNotFoundError, w1\<lparr>fs := fs'\<rparr>)
      | (Undecodable rc, fs') \<Rightarrow> (Raises UnicodeDecodeError, w1\<lparr>fs := fs'\<rparr>)
      | (Finished result, fs') \<Rightarrow>
          (let w2 = w1\<lparr>fs := fs'\<rparr> in
           if check \<and> returncode result \<noteq> 0 then
             (let w3 = print (ErrorRunning cmd (returncode result)) w2 in
              if stderr result \<noteq> [] \<and> \<not> accepts (ErrorOutput (stderr result))
              then (Raises MarkupError, w3)
              else
                (let w4 = (if stderr result \<noteq> [] then print (ErrorOutput (stderr result)) w3
                           else w3)
                 in if stdout result \<noteq> [] \<and> \<not> accepts (Output (stdout result))
                    then (Raises MarkupError, w4)
                    else (Exits 1,
                          if stdout result \<noteq> [] then print (Output (stdout result)) w4
                          else w4)))
           else if strip (stdout result) \<noteq> [] then
             (if accepts (Dim (strip (stdout result)))
              then (Returns result, print (Dim (strip (stdout result))) w2)
              else (Raises MarkupError, w2))
           else (Returns result, w2)))"

text \<open>
  What the operating system tells \<^verbatim>\<open>build.py\<close>: the home directory, how a string is
  parsed into a path, how a path resolves, the value of \<^verbatim>\<open>VCPKG_ROOT\<close> and the
  processor count.
\<close>

record os =
  home :: path
  parse_path :: "string \<Rightarrow> path"
  resolve :: "path \<Rightarrow> path"
  vcpkg_root :: "string option"
  cpu_count :: "int option"

text \<open>The same, together with the lines of child output that Rich accepts.\<close>

record build_env = os +
  renders :: "line \<Rightarrow> bool"

definition toolchain_tail :: path where
  "toolchain_tail = [''scripts'', ''buildsystems'', ''vcpkg.cmake'']"

definition possible_locations :: "path \<Rightarrow> path list" where
  "possible_locations home_dir =
     [ [''vcpkg'', ''scripts'', ''buildsystems'', ''vcpkg.cmake''],
       home_dir @ [''vcpkg'', ''scripts'', ''buildsystems'', ''vcpkg.cmake''],
       [''/'', ''usr'', ''local'', ''share'', ''vcpkg'', ''scripts'', ''buildsystems'', ''vcpkg.cmake''],
       [''C:'', ''vcpkg'', ''scripts'', ''buildsystems'', ''vcpkg.cmake''] ]"

text \<open>The loop over \<^verbatim>\<open>possible_locations\<close>, returning at the first that exists.\<close>

fun first_existing :: "filesystem \<Rightarrow> path list \<Rightarrow> path option" where
  "first_existing f [] = None"
| "first_existing f (location # rest) =
     (if exists f location then Some location else first_existing f rest)"

definition find_vcpkg_toolchain :: "'a os_scheme \<Rightarrow> filesystem \<Rightarrow> string option" where
  "find_vcpkg_toolchain env f =
     (case first_existing f (possible_locations (home env)) of
        Some location \<Rightarrow> Some (str_path (resolve env location))
      | None \<Rightarrow>
          (case vcpkg_root env of
             None \<Rightarrow> None
           | Some root \<Rightarrow>
               if root = [] then None
               else (let toolchain = parse_path env root @ toolchain_tail in
                     if exists f toolchain then Some (str_path (resolve env toolchain))
                     else None)))"

datatype build_mode = Debug | Release

text \<open>\<^verbatim>\<open>mode.title()\<close>\<close>

fun title :: "build_mode \<Rightarrow> string" where
  "title Debug = ''Debug''"
| "title Release = ''Release''"

text \<open>\<^verbatim>\<open>shutil.rmtree(build_dir)\<close>: the directory and everything below it goes.\<close>

definition rmtree :: "path \<Rightarrow> filesystem \<Rightarrow> error + filesystem" where
  "rmtree d f =
     (if f d = Some Dir then Inr (\<lambda>p. if prefix d p then None else f p)
      else Inl NotADirectoryError)"

text \<open>
  \<^verbatim>\<open>build_dir.mkdir(exist_ok=True)\<close>. The parent of the build directory is the project
  root, which holds the directory of the running script and therefore exists; a missing
  parent is not a state the script can find.
\<close>

definition mkdir_exist_ok :: "path \<Rightarrow> filesystem \<Rightarrow> error + filesystem" where
  "mkdir_exist_ok d f =
     (case f d of
        None \<Rightarrow> Inr (f(d \<mapsto> Dir))
      | Some Dir \<Rightarrow> Inr f
      | Some File \<Rightarrow> Inl FileExistsError)"

text \<open>The clean step and the creation of the build directory, up to the configuration.\<close>

definition prepare_build_dir :: "bool \<Rightarrow> path \<Rightarrow> world \<Rightarrow> error + world" where
  "prepare_build_dir clean build_dir w =
     (let cleaned =
            (if clean \<and> exists (fs w) build_dir then
               (case rmtree build_dir (fs w) of
                  Inl e \<Rightarrow> Inl e
                | Inr f \<Rightarrow> Inr (print (Info ''Build directory cleaned'') (w\<lparr>fs := f\<rparr>)))
             else Inr w)
      in case cleaned of
           Inl e \<Rightarrow> Inl e
         | Inr w1 \<Rightarrow>
             (case mkdir_exist_ok build_dir (fs w1) of
                Inl e \<Rightarrow> Inl e
              | Inr f \<Rightarrow> Inr (w1\<lparr>fs := f\<rparr>)))"

definition cmake_args :: "path \<Rightarrow> build_mode \<Rightarrow> string option \<Rightarrow> bool \<Rightarrow> bool \<Rightarrow> string list" where
  "cmake_args project_root mode toolchain_file export_compile_commands tests =
     [''cmake'', str_path project_root, ''-DCMAKE_BUILD_TYPE='' @ title mode]
     @ (case toolchain_file of
          None \<Rightarrow> []
        | Some t \<Rightarrow> if t = [] then [] else [''-DCMAKE_TOOLCHAIN_FILE='' @ t])
     @ (if export_compile_commands then [''-DCMAKE_EXPORT_COMPILE_COMMANDS=ON''] else [])
     @ [''-DBUILD_TESTS='' @ (if tests then ''ON'' else ''OFF'')]
     @ [''-DBUILD_EXAMPLES=ON'']"

text \<open>
  \<^verbatim>\<open>jobs or os.cpu_count() or 4\<close>: Python's \<^verbatim>\<open>or\<close> takes the first operand that is
  truthy, and both \<^verbatim>\<open>None\<close> and \<^verbatim>\<open>0\<close> are falsy.
\<close>

definition truthy :: "int option \<Rightarrow> bool" where
  "truthy v = (case v of None \<Rightarrow> False | Some n \<Rightarrow> n \<noteq> 0)"

definition parallel_jobs :: "int option \<Rightarrow> int option \<Rightarrow> int" where
  "parallel_jobs jobs cpus =
     (case jobs of
        Some j \<Rightarrow> if j \<noteq> 0 then j else (case cpus of Some c \<Rightarrow> if c \<noteq> 0 then c else 4 | None \<Rightarrow> 4)
      | None \<Rightarrow> (case cpus of Some c \<Rightarrow> if c \<noteq> 0 then c else 4 | None \<Rightarrow> 4))"

definition build_args :: "bool \<Rightarrow> int option \<Rightarrow> int option \<Rightarrow> string list" where
  "build_args verbose jobs cpus =
     [''cmake'', ''--build'', ''.'']
     @ (if verbose then [''--verbose''] else [])
     @ [''--parallel'', str_int (parallel_jobs jobs cpus)]"

text \<open>The copy of the compile database after the build.\<close>

definition export_step :: "bool \<Rightarrow> path \<Rightarrow> path \<Rightarrow> world \<Rightarrow> error + world" where
  "export_step export_compile_commands project_root build_dir w =
     (if export_compile_commands then
        (let src = build_dir @ [''compile_commands.json''];
             dst = project_root @ [''compile_commands.json'']
         in case fs w src of
              None \<Rightarrow> Inr (print (Info ''Warning: compile_commands.json not generated'') w)
            | Some Dir \<Rightarrow> Inl IsADirectoryError
            | Some File \<Rightarrow>
                Inr (print (Info ''Exported compile commands'') (w\<lparr>fs := (fs w)(dst \<mapsto> File)\<rparr>)))
      else Inr w)"

text \<open>
  \<^verbatim>\<open>main\<close> of build.py from the configuration step on, and as a whole. A normal return
  of \<^verbatim>\<open>main\<close> ends the process with status 0.
\<close>

definition configure_and_build ::
  "build_env \<Rightarrow> process \<Rightarrow> path \<Rightarrow> build_mode \<Rightarrow> bool \<Rightarrow> bool \<Rightarrow> bool \<Rightarrow> int option \<Rightarrow> world
     \<Rightarrow> unit outcome \<times> world" where
  "configure_and_build env proc project_root mode tests verbose export_compile_commands jobs w =
     (let build_dir = project_root @ [''build''];
          toolchain_file = find_vcpkg_toolchain env (fs w);
          w1 = print (case toolchain_file of
                        None \<Rightarrow> Info ''Warning: vcpkg toolchain not found''
                      | Some t \<Rightarrow> if t = [] then Info ''Warning: vcpkg toolchain not found''
                                  else Info (''Using vcpkg toolchain: '' @ t)) w
      in case run_command (renders env) proc
                (cmake_args project_root mode toolchain_file export_compile_commands tests)
                build_dir True w1 of
           (Exits n, w2) \<Rightarrow> (Exits n, w2)
         | (Raises e, w2) \<Rightarrow> (Raises e, w2)
         | (Pending, w2) \<Rightarrow> (Pending, w2)
         | (Returns _, w2) \<Rightarrow>
             (case run_command (renders env) proc (build_args verbose jobs (cpu_count env)) build_dir True
                     (print (Info ''CMake configuration completed'') w2) of
                (Exits n, w3) \<Rightarrow> (Exits n, w3)
              | (Raises e, w3) \<Rightarrow> (Raises e, w3)
              | (Pending, w3) \<Rightarrow> (Pending, w3)
              | (Returns _, w3) \<Rightarrow>
                  (case export_step export_compile_commands project_root build_dir
                          (print (Info ''Build completed successfully!'') w3) of
                     Inl e \<Rightarrow> (Raises e, w3)
                   | Inr w4 \<Rightarrow> (Returns (), w4))))"

definition build_main ::
  "build_env \<Rightarrow> process \<Rightarrow> path \<Rightarrow> build_mode \<Rightarrow> bool \<Rightarrow> bool \<Rightarrow> bool \<Rightarrow> bool \<Rightarrow> int option \<Rightarrow> world
     \<Rightarrow> unit outcome \<times> world" where
  "build_main env proc project_root mode tests clean verbose export_compile_commands jobs w =
     (case prepare_build_dir clean (project_root @ [''build'']) w of
        Inl e \<Rightarrow> (Raises e, w)
      | Inr w1 \<Rightarrow>
          configure_and_build env proc project_root mode tests verbose export_compile_commands
            jobs w1)"


subsection \<open>format.py\<close>

text \<open>
  The formatter as a child process: from the argument vector to the exit code. The run
  keeps the argument vectors of the processes it started, in order.
\<close>

definition check_cmd :: "path \<Rightarrow> string list" where
  "check_cmd file = [''clang-format'', ''--dry-run'', ''--Werror'', str_path file]"

definition format_cmd :: "path \<Rightarrow> string list" where
  "format_cmd file = [''clang-format'', ''-i'', str_path file]"

definition check_file_format :: "(string list \<Rightarrow> int) \<Rightarrow> path \<Rightarrow> bool" where
  "check_file_format formatter file = (formatter (check_cmd file) = 0)"

text \<open>\<^verbatim>\<open>subprocess.run(..., check=True)\<close> raises on a non-zero exit.\<close>

definition format_file :: "(string list \<Rightarrow> int) \<Rightarrow> path \<Rightarrow> error + unit" where
  "format_file formatter file =
     (let rc = formatter (format_cmd file) in
      if rc \<noteq> 0 then Inl (CalledProcessError rc) else Inr ())"

record run_log =
  started :: "string list list"
  printed :: "line list"

text \<open>The loop of the check mode: every file is checked, the failing ones are kept.\<close>

fun check_loop ::
  "(string list \<Rightarrow> int) \<Rightarrow> path list \<Rightarrow> path list \<times> run_log \<Rightarrow> path list \<times> run_log" where
  "check_loop formatter [] acc = acc"
| "check_loop formatter (file # rest) (needs_format, l) =
     (let l1 = l\<lparr>started := started l @ [check_cmd file]\<rparr> in
      if \<not> check_file_format formatter file then
        check_loop formatter rest
          (needs_format @ [file], l1\<lparr>printed := printed l1 @ [Failed (str_path file)]\<rparr>)
      else check_loop formatter rest (needs_format, l1))"

text \<open>The loop of the apply mode: the exception of \<^verbatim>\<open>format_file\<close> leaves the loop.\<close>

fun format_loop ::
  "(string list \<Rightarrow> int) \<Rightarrow> path list \<Rightarrow> run_log \<Rightarrow> unit outcome \<times> run_log" where
  "format_loop formatter [] l = (Returns (), l)"
| "format_loop formatter (file # rest) l =
     (let l1 = l\<lparr>started := started l @ [format_cmd file]\<rparr> in
      case format_file formatter file of
        Inl e \<Rightarrow> (Raises e, l1)
      | Inr _ \<Rightarrow> format_loop formatter rest (l1\<lparr>printed := printed l1 @ [Passed (name file)]\<rparr>))"

definition format_main ::
  "bool \<Rightarrow> (string list \<Rightarrow> int) \<Rightarrow> path \<Rightarrow> path list \<Rightarrow> bool \<Rightarrow> unit outcome \<times> run_log" where
  "format_main clang_format_installed formatter project_dir tree check =
     (let l0 = \<lparr>started = [], printed = []\<rparr> in
      if \<not> clang_format_installed then
        (Exits 1, l0\<lparr>printed := [Info ''Error: clang-format is not installed.'']\<rparr>)
      else
        (let files = find_cpp_files format_extensions exclude_dirs project_dir tree in
         if files = [] then (Returns (), l0\<lparr>printed := [Info ''No C++ files found'']\<rparr>)
         else if check then
           (case check_loop formatter files ([], l0) of
              (needs_format, l) \<Rightarrow>
                if needs_format = [] then
                  (Exits 0, l\<lparr>printed := printed l @ [Info ''All files are properly formatted'']\<rparr>)
                else
                  (Exits 1,
                   l\<lparr>printed := printed l @ [Info ''files need formatting:'']
                         @ map (\<lambda>file. Text (str_path file)) needs_format\<rparr>))
         else
           (case format_loop formatter files l0 of
              (Returns u, l) \<Rightarrow>
                (Returns u, l\<lparr>printed := printed l @ [Info ''All files have been formatted'']\<rparr>)
            | (out, l) \<Rightarrow> (out, l))))"

subsection \<open>lint.py\<close>

definition find_compile_commands :: "(path \<Rightarrow> bool) \<Rightarrow> path \<Rightarrow> path option" where
  "find_compile_commands path_exists project_dir =
     (let build_commands = project_dir @ [''build'', ''compile_commands.json''];
          root_commands = project_dir @ [''compile_commands.json'']
      in if path_exists build_commands then Some build_commands
         else if path_exists root_commands then Some root_commands
         else None)"

text \<open>
  What the lint run is given: whether \<^verbatim>\<open>clang-tidy\<close> is on the path, which paths
  exist, the project directory and the entries below it, the result of
  \<^verbatim>\<open>get_system_include_args\<close> (it depends on the platform only), the analyzer as a child
  process (from the argument vector to the exit code and the bytes written to standard
  output and standard error), and the lines of child output that Rich accepts. The model
  covers the runs in which every child process can be started and ends.
\<close>

record lint_env =
  clang_tidy_installed :: bool
  path_exists :: "path \<Rightarrow> bool"
  project_dir :: path
  tree :: "path list"
  extra_args :: "string list"
  analyzer :: "string list \<Rightarrow> int \<times> string \<times> string"
  renders_text :: "line \<Rightarrow> bool"

definition lint_cmd :: "lint_env \<Rightarrow> path \<Rightarrow> bool \<Rightarrow> path \<Rightarrow> string list" where
  "lint_cmd env compile_commands fix file =
     [''clang-tidy'', ''-p='' @ str_path compile_commands]
     @ extra_args env
     @ (if fix then [''--fix'', ''--fix-errors''] else [])
     @ [str_path file]"

text \<open>
  The body of \<^verbatim>\<open>lint_file\<close> under the semaphore: what the task returns, or raises,
  once its child process has ended. \<^verbatim>\<open>stdout.decode() + stderr.decode()\<close> raises
  \<^verbatim>\<open>UnicodeDecodeError\<close> when either does not decode.
\<close>

definition lint_file ::
  "lint_env \<Rightarrow> path \<Rightarrow> bool \<Rightarrow> path \<Rightarrow> error + path \<times> bool \<times> string" where
  "lint_file env compile_commands fix file =
     (case analyzer env (lint_cmd env compile_commands fix file) of
        (rc, out, err) \<Rightarrow>
          (case decode_utf8 out of
             None \<Rightarrow> Inl UnicodeDecodeError
           | Some stdout_text \<Rightarrow>
               (case decode_utf8 err of
                  None \<Rightarrow> Inl UnicodeDecodeError
                | Some stderr_text \<Rightarrow> Inr (file, rc = 0, stdout_text @ stderr_text))))"


text \<open>
  The fan-out of \<^verbatim>\<open>lint_all_files\<close>. Every file has one task. A task waits at
  \<^verbatim>\<open>async with semaphore\<close>, runs its child process while it holds the semaphore, and
  hands what it returned or raised to \<^verbatim>\<open>as_completed\<close> when the process has ended.
  The state keeps the tasks still waiting, the tasks in flight, the files of the tasks that
  have ended and what they handed in, both in the order of completion, the value of the
  semaphore, the argument vectors of the processes started so far, and whether the
  remaining tasks have been cancelled.
\<close>

record fanout =
  waiting :: "path list"
  in_flight :: "path list"
  finished :: "path list"
  results :: "(error + path \<times> bool \<times> string) list"
  sem :: int
  spawned :: "string list list"
  cancelled :: bool

text \<open>
  The event loop decides which task moves next. A task can take the semaphore only while
  its value is positive (\<^verbatim>\<open>asyncio.Semaphore.acquire\<close>); leaving the block gives it back.
  When a task has handed in an exception, the loop over \<^verbatim>\<open>as_completed\<close> raises it,
  \<^verbatim>\<open>lint_all_files\<close> ends, and \<^verbatim>\<open>asyncio.run\<close> cancels the tasks that are left:
  those waiting never start, those in flight leave the semaphore block. Until the
  cancellation arrives other tasks may still move.
\<close>

datatype event = Acquire path | Complete path | Cancel

definition crashed :: "fanout \<Rightarrow> bool" where
  "crashed s = list_ex isl (results s)"

fun enabled :: "event \<Rightarrow> fanout \<Rightarrow> bool" where
  "enabled (Acquire file) s = (\<not> cancelled s \<and> file \<in> set (waiting s) \<and> 0 < sem s)"
| "enabled (Complete file) s = (\<not> cancelled s \<and> file \<in> set (in_flight s))"
| "enabled Cancel s = (\<not> cancelled s \<and> crashed s)"

fun fire :: "lint_env \<Rightarrow> path \<Rightarrow> bool \<Rightarrow> event \<Rightarrow> fanout \<Rightarrow> fanout" where
  "fire env compile_commands fix (Acquire file) s =
     s\<lparr>waiting := remove1 file (waiting s),
       in_flight := in_flight s @ [file],
       sem := sem s - 1,
       spawned := spawned s @ [lint_cmd env compile_commands fix file]\<rparr>"
| "fire env compile_commands fix (Complete file) s =
     s\<lparr>in_flight := remove1 file (in_flight s),
       finished := finished s @ [file],
       results := results s @ [lint_file env compile_commands fix file],
       sem := sem s + 1\<rparr>"
| "fire env compile_commands fix Cancel s =
     s\<lparr>waiting := [],
       in_flight := [],
       sem := sem s + int (length (in_flight s)),
       cancelled := True\<rparr>"

text \<open>An event that is not enabled does not happen.\<close>

definition step :: "lint_env \<Rightarrow> path \<Rightarrow> bool \<Rightarrow> event \<Rightarrow> fanout \<Rightarrow> fanout" where
  "step env compile_commands fix e s =
     (if enabled e s then fire env compile_commands fix e s else s)"

fun run_events :: "lint_env \<Rightarrow> path \<Rightarrow> bool \<Rightarrow> event list \<Rightarrow> fanout \<Rightarrow> fanout" where
  "run_events env compile_commands fix [] s = s"
| "run_events env compile_commands fix (e # es) s =
     run_events env compile_commands fix es (step env compile_commands fix e s)"

text \<open>Whether some event is enabled, and whether every task has run to its end.\<close>

definition can_move :: "fanout \<Rightarrow> bool" where
  "can_move s =
     (\<not> cancelled s \<and> (in_flight s \<noteq> [] \<or> (waiting s \<noteq> [] \<and> 0 < sem s) \<or> crashed s))"



text \<open>\<^verbatim>\<open>asyncio.Semaphore(jobs)\<close> raises \<^verbatim>\<open>ValueError\<close> for a negative value.\<close>

definition start_fanout :: "path list \<Rightarrow> int \<Rightarrow> error + fanout" where
  "start_fanout files jobs =
     (if jobs < 0 then Inl ValueError
      else Inr \<lparr>waiting = files, in_flight = [], finished = [], results = [], sem = jobs,
                spawned = [], cancelled = False\<rparr>)"

text \<open>
  The body of the loop over \<^verbatim>\<open>as_completed\<close>, on the progress count, the lines printed
  and \<^verbatim>\<open>failed_files\<close>.
\<close>

fun note_result ::
  "path \<times> bool \<times> string \<Rightarrow> nat \<times> line list \<times> (path \<times> string) list
     \<Rightarrow> nat \<times> line list \<times> (path \<times> string) list" where
  "note_result (file, success, output) (advanced, out, failed_files) =
     (if success then (advanced + 1, out @ [Passed (name file)], failed_files)
      else (advanced + 1, out @ [Failed (name file)], failed_files @ [(file, output)]))"

text \<open>
  The loop itself. \<^verbatim>\<open>as_completed(tasks)\<close> yields as many awaitables as there are tasks;
  awaiting one gives what the next task to end has handed in. The first argument counts
  the awaitables still to come, the second lists what has been handed in and not yet
  taken. With nothing handed in the loop waits; an exception handed in leaves the loop.
\<close>

fun await_results ::
  "nat \<Rightarrow> (error + path \<times> bool \<times> string) list \<Rightarrow> nat \<times> line list \<times> (path \<times> string) list
     \<Rightarrow> (nat \<times> line list \<times> (path \<times> string) list) outcome" where
  "await_results 0 handed_in acc = Returns acc"
| "await_results (Suc n) [] acc = Pending"
| "await_results (Suc n) (Inl e # handed_in) acc = Raises e"
| "await_results (Suc n) (Inr r # handed_in) acc = await_results n handed_in (note_result r acc)"

text \<open>
  The details printed for the failed files after the loop. The output of the analyzer is
  printed as markup.
\<close>

fun print_details :: "(line \<Rightarrow> bool) \<Rightarrow> (path \<times> string) list \<Rightarrow> line list \<Rightarrow> error + line list" where
  "print_details accepts [] out = Inr out"
| "print_details accepts ((file, output) # rest) out =
     (if accepts (Text output)
      then print_details accepts rest (out @ [FileHeader (str_path file), Text output])
      else Inl MarkupError)"

definition report :: "(line \<Rightarrow> bool) \<Rightarrow> (path \<times> string) list \<Rightarrow> line list \<Rightarrow> error + line list" where
  "report accepts failed_files out =
     (if failed_files \<noteq> [] then
        print_details accepts failed_files (out @ [Info ''Issues found in the following files:''])
      else Inr out)"

text \<open>\<^verbatim>\<open>lint_all_files\<close> under the schedule \<open>events\<close> of the event loop.\<close>

definition lint_all_files ::
  "lint_env \<Rightarrow> path list \<Rightarrow> path \<Rightarrow> bool \<Rightarrow> int \<Rightarrow> event list \<Rightarrow> (bool \<times> line list) outcome" where
  "lint_all_files env files compile_commands fix jobs events =
     (case start_fanout files jobs of
        Inl e \<Rightarrow> Raises e
      | Inr s0 \<Rightarrow>
          (case await_results (length files)
                  (results (run_events env compile_commands fix events s0)) (0, [], []) of
             Returns (advanced, out, failed_files) \<Rightarrow>
               (case report (renders_text env) failed_files out of
                  Inl e \<Rightarrow> Raises e
                | Inr out' \<Rightarrow> Returns (length failed_files = 0, out'))
           | Exits n \<Rightarrow> Exits n
           | Raises e \<Rightarrow> Raises e
           | Pending \<Rightarrow> Pending))"

definition lint_main :: "lint_env \<Rightarrow> bool \<Rightarrow> int \<Rightarrow> event list \<Rightarrow> unit outcome" where
  "lint_main env fix jobs events =
     (if \<not> clang_tidy_installed env then Exits 1
      else
        (case find_compile_commands (path_exists env) (project_dir env) of
           None \<Rightarrow> Exits 1
         | Some compile_commands \<Rightarrow>
             (let files = find_cpp_files lint_extensions exclude_dirs (project_dir env) (tree env) in
              if files = [] then Returns ()
              else
                (case lint_all_files env files compile_commands fix jobs events of
                   Returns (success, out) \<Rightarrow> if success then Exits 0 else Exits 1
                 | Exits n \<Rightarrow> Exits n
                 | Raises e \<Rightarrow> Raises e
                 | Pending \<Rightarrow> Pending))))"


text \<open>
  No name ends with two of the extensions when none of them is the end of another; then
  the patterns of one discovery never yield the same entry twice.
\<close>

definition exclusive :: "string list \<Rightarrow> bool" where
  "exclusive exts = (\<forall>a \<in> set exts. \<forall>b \<in> set exts. a \<noteq> b \<longrightarrow> \<not> suffix a b)"


text \<open>What \<^verbatim>\<open>lint_file\<close> returns for a file whose child writes output that decodes.\<close>

definition lint_result :: "lint_env \<Rightarrow> path \<Rightarrow> bool \<Rightarrow> path \<Rightarrow> path \<times> bool \<times> string" where
  "lint_result env compile_commands fix file =
     (case analyzer env (lint_cmd env compile_commands fix file) of
        (rc, out, err) \<Rightarrow> (file, rc = 0, out @ err))"


section \<open>File discovery\<close>

lemma scan_matches_eq:
  "scan_matches ex ms files = files @ filter (\<lambda>f. \<not> in_excluded_dir ex f) ms"
  by (induction ms arbitrary: files) auto

lemma scan_extensions_eq:
  "scan_extensions ex pd tr exts files =
     files @ concat (map (\<lambda>ext. filter (\<lambda>f. \<not> in_excluded_dir ex f) (rglob pd tr ext)) exts)"
  by (induction exts arbitrary: files) (auto simp: scan_matches_eq)

lemma set_find_cpp_files:
  "set (find_cpp_files exts ex pd tr) =
     {pd @ rel | rel. rel \<in> set tr \<and> rel \<noteq> [] \<and> (\<exists>ext \<in> set exts. suffix ext (last rel))
        \<and> \<not> in_excluded_dir ex (pd @ rel)}"
  by (auto simp: find_cpp_files_def scan_extensions_eq rglob_def)

lemma exclusive_format: "exclusive format_extensions"
  by (simp add: exclusive_def format_extensions_def suffix_Cons)

lemma exclusive_lint: "exclusive lint_extensions"
  by (simp add: exclusive_def lint_extensions_def suffix_Cons)

lemma exclusive_disjoint:
  assumes "exclusive exts" "a \<in> set exts" "b \<in> set exts" "suffix a n" "suffix b n"
  shows "a = b"
proof -
  have c: "suffix a b \<or> suffix b a"
    using assms(4,5) by (rule suffix_same_cases)
  have 1: "a \<noteq> b \<longrightarrow> \<not> suffix a b"
    using assms(1,2,3) by (simp add: exclusive_def)
  have 2: "b \<noteq> a \<longrightarrow> \<not> suffix b a"
    using assms(1,2,3) by (simp add: exclusive_def)
  from c 1 2 show ?thesis by metis
qed

lemma distinct_matches:
  "distinct tr \<Longrightarrow> distinct (filter (\<lambda>f. \<not> in_excluded_dir ex f) (rglob pd tr ext))"
  by (simp add: rglob_def distinct_map inj_on_def)

lemma matches_disjoint:
  assumes "exclusive exts" "a \<in> set exts" "b \<in> set exts" "a \<noteq> b"
  shows "set (rglob pd tr a) \<inter> set (rglob pd tr b) = {}"
proof -
  have False if "rel \<in> set tr" "rel \<noteq> []" "suffix a (last rel)" "suffix b (last rel)" for rel
    using exclusive_disjoint[OF assms(1,2,3) that(3,4)] assms(4) by simp
  then show ?thesis by (auto simp: rglob_def)
qed

lemma distinct_scan:
  assumes "distinct tr" "exclusive exts"
  shows "distinct es \<Longrightarrow> set es \<subseteq> set exts \<Longrightarrow>
    distinct (concat (map (\<lambda>ext. filter (\<lambda>f. \<not> in_excluded_dir ex f) (rglob pd tr ext)) es))"
proof (induction es)
  case Nil
  then show ?case by simp
next
  case (Cons e es)
  have "set (rglob pd tr e) \<inter> set (rglob pd tr e') = {}" if "e' \<in> set es" for e'
    using matches_disjoint[OF assms(2), of e e' pd tr] that Cons.prems by auto
  then have "set (filter (\<lambda>f. \<not> in_excluded_dir ex f) (rglob pd tr e)) \<inter>
      set (concat (map (\<lambda>ext. filter (\<lambda>f. \<not> in_excluded_dir ex f) (rglob pd tr ext)) es)) = {}"
    by auto
  with Cons distinct_matches[OF assms(1), of ex pd e] show ?case by simp
qed

lemma distinct_find_cpp_files:
  assumes "distinct tr" "distinct exts" "exclusive exts"
  shows "distinct (find_cpp_files exts ex pd tr)"
  using distinct_scan[OF assms(1) assms(3) assms(2), of ex pd]
  by (simp add: find_cpp_files_def scan_extensions_eq)

lemma sorted_find_cpp_files: "sorted (find_cpp_files exts ex pd tr)"
  by (simp add: find_cpp_files_def)

lemma find_cpp_files_stable:
  assumes "distinct tr" "distinct exts" "exclusive exts"
    and "distinct tr'" "set tr' = set tr" "distinct exts'" "set exts' = set exts"
  shows "find_cpp_files exts' ex pd tr' = find_cpp_files exts ex pd tr"
proof -
  have e': "exclusive exts'" using assms(3,7) by (simp add: exclusive_def)
  have "set (find_cpp_files exts' ex pd tr') = set (find_cpp_files exts ex pd tr)"
    by (simp add: set_find_cpp_files assms(5,7))
  then show ?thesis
    using sorted_distinct_set_unique[OF sorted_find_cpp_files distinct_find_cpp_files[OF assms(4,6) e']
        sorted_find_cpp_files distinct_find_cpp_files[OF assms(1,2,3)]]
    by blast
qed

lemma in_excluded_dir_iff: "in_excluded_dir ex p \<longleftrightarrow> (\<exists>d \<in> set ex. d \<in> set p)"
  by (simp add: in_excluded_dir_def list_ex_iff)

lemma exclusive_cong: "set exts' = set exts \<Longrightarrow> exclusive exts' = exclusive exts"
  by (simp add: exclusive_def)

lemma known_extensions_exclusive:
  assumes "set exts = set format_extensions \<or> set exts = set lint_extensions"
  shows "exclusive exts"
  using assms exclusive_cong[of exts format_extensions] exclusive_cong[of exts lint_extensions]
    exclusive_format exclusive_lint by blast

lemma format_main_empty:
  "find_cpp_files format_extensions exclude_dirs pd tr = [] \<Longrightarrow>
     fst (format_main True formatter pd tr check) = Returns ()"
  by (simp add: format_main_def)

lemma lint_main_empty:
  "clang_tidy_installed env \<Longrightarrow> find_compile_commands (path_exists env) (project_dir env) = Some cc \<Longrightarrow>
   find_cpp_files lint_extensions exclude_dirs (project_dir env) (tree env) = [] \<Longrightarrow>
     lint_main env fix jobs events = Returns ()"
  by (simp add: lint_main_def)

text \<open>
  Claim C6. Discovery returns a sorted list without repetitions that holds exactly the
  entries below the project root whose last part ends with one of the configured
  extensions and whose parts contain none of the excluded names, at whatever depth. The
  list depends neither on the order of the walk nor on the order in which the set of
  extensions is iterated, so two calls on an unchanged tree agree. An empty list is no
  error: both runners return normally.
\<close>

theorem find_cpp_files_sorted_set:
  assumes "distinct tr" and "distinct exts"
    and "set exts = set format_extensions \<or> set exts = set lint_extensions"
  shows "sorted (find_cpp_files exts exclude_dirs pd tr)
       \<and> distinct (find_cpp_files exts exclude_dirs pd tr)
       \<and> set (find_cpp_files exts exclude_dirs pd tr) =
           {pd @ rel | rel. rel \<in> set tr \<and> rel \<noteq> []
              \<and> (\<exists>ext \<in> set exts. suffix ext (last rel))
              \<and> \<not> (\<exists>d \<in> set exclude_dirs. d \<in> set (pd @ rel))}
       \<and> (\<forall>tr' exts'. distinct tr' \<and> set tr' = set tr \<and> distinct exts' \<and> set exts' = set exts
            \<longrightarrow> find_cpp_files exts' exclude_dirs pd tr' = find_cpp_files exts exclude_dirs pd tr)
       \<and> (find_cpp_files format_extensions exclude_dirs pd tr = []
            \<longrightarrow> fst (format_main True formatter pd tr check) = Returns ())
       \<and> (clang_tidy_installed env
            \<and> find_compile_commands (path_exists env) (project_dir env) = Some cc
            \<and> find_cpp_files lint_extensions exclude_dirs (project_dir env) (tree env) = []
            \<longrightarrow> lint_main env fix jobs events = Returns ())"
proof -
  note ex = known_extensions_exclusive[OF assms(3)]
  have 1: "sorted (find_cpp_files exts exclude_dirs pd tr)"
    by (rule sorted_find_cpp_files)
  have 2: "distinct (find_cpp_files exts exclude_dirs pd tr)"
    by (rule distinct_find_cpp_files[OF assms(1,2) ex])
  have 3: "set (find_cpp_files exts exclude_dirs pd tr) =
           {pd @ rel | rel. rel \<in> set tr \<and> rel \<noteq> []
              \<and> (\<exists>ext \<in> set exts. suffix ext (last rel))
              \<and> \<not> (\<exists>d \<in> set exclude_dirs. d \<in> set (pd @ rel))}"
    by (simp only: set_find_cpp_files in_excluded_dir_iff)
  have 4: "\<forall>tr' exts'. distinct tr' \<and> set tr' = set tr \<and> distinct exts' \<and> set exts' = set exts
            \<longrightarrow> find_cpp_files exts' exclude_dirs pd tr' = find_cpp_files exts exclude_dirs pd tr"
    using find_cpp_files_stable[OF assms(1,2) ex] by blast
  have 5: "find_cpp_files format_extensions exclude_dirs pd tr = []
            \<longrightarrow> fst (format_main True formatter pd tr check) = Returns ()"
    using format_main_empty by blast
  have 6: "clang_tidy_installed env
            \<and> find_compile_commands (path_exists env) (project_dir env) = Some cc
            \<and> find_cpp_files lint_extensions exclude_dirs (project_dir env) (tree env) = []
            \<longrightarrow> lint_main env fix jobs events = Returns ()"
    using lint_main_empty by blast
  from 1 2 3 4 5 6 show ?thesis by (intro conjI)
qed

theorem find_cpp_files_sorted_set_witness:
  "distinct [[''src'', ''b.cc''], [''build'', ''x.cc''], [''a.cpp'']]
   \<and> distinct lint_extensions
   \<and> sorted (find_cpp_files lint_extensions exclude_dirs [''p'']
               [[''src'', ''b.cc''], [''build'', ''x.cc''], [''a.cpp'']])
   \<and> [''p'', ''a.cpp''] \<in> set (find_cpp_files lint_extensions exclude_dirs [''p'']
               [[''src'', ''b.cc''], [''build'', ''x.cc''], [''a.cpp'']])
   \<and> [''p'', ''build'', ''x.cc''] \<notin> set (find_cpp_files lint_extensions exclude_dirs [''p'']
               [[''src'', ''b.cc''], [''build'', ''x.cc''], [''a.cpp'']])
   \<and> find_cpp_files (rev lint_extensions) exclude_dirs [''p'']
               [[''a.cpp''], [''build'', ''x.cc''], [''src'', ''b.cc'']]
       = find_cpp_files lint_extensions exclude_dirs [''p'']
               [[''src'', ''b.cc''], [''build'', ''x.cc''], [''a.cpp'']]"
proof -
  let ?t = "[[''src'', ''b.cc''], [''build'', ''x.cc''], [''a.cpp'']]"
  let ?t' = "[[''a.cpp''], [''build'', ''x.cc''], [''src'', ''b.cc'']]"
  have h1: "distinct ?t" by simp
  have h2: "distinct lint_extensions" by (simp add: lint_extensions_def)
  have h3: "set lint_extensions = set format_extensions \<or> set lint_extensions = set lint_extensions"
    by simp
  note w = find_cpp_files_sorted_set[OF h1 h2 h3, of "[''p'']"]
  have s: "sorted (find_cpp_files lint_extensions exclude_dirs [''p''] ?t)"
    by (rule w[THEN conjunct1])
  have eq: "set (find_cpp_files lint_extensions exclude_dirs [''p''] ?t) =
           {[''p''] @ rel | rel. rel \<in> set ?t \<and> rel \<noteq> []
              \<and> (\<exists>ext \<in> set lint_extensions. suffix ext (last rel))
              \<and> \<not> (\<exists>d \<in> set exclude_dirs. d \<in> set ([''p''] @ rel))}"
    by (rule w[THEN conjunct2, THEN conjunct2, THEN conjunct1])
  have m1: "[''p'', ''a.cpp''] \<in> set (find_cpp_files lint_extensions exclude_dirs [''p''] ?t)"
    unfolding eq by (simp add: lint_extensions_def exclude_dirs_def suffix_def)
  have m2: "[''p'', ''build'', ''x.cc''] \<notin> set (find_cpp_files lint_extensions exclude_dirs [''p''] ?t)"
    unfolding eq by (simp add: exclude_dirs_def)
  have p: "distinct ?t' \<and> set ?t' = set ?t \<and> distinct (rev lint_extensions)
          \<and> set (rev lint_extensions) = set lint_extensions"
    using h2 by auto
  have d: "find_cpp_files (rev lint_extensions) exclude_dirs [''p''] ?t'
       = find_cpp_files lint_extensions exclude_dirs [''p''] ?t"
    by (rule w[THEN conjunct2, THEN conjunct2, THEN conjunct2, THEN conjunct1,
               THEN spec, THEN spec, THEN mp, OF p])
  from h1 h2 s m1 m2 d show ?thesis by (intro conjI)
qed


section \<open>Build orchestrator\<close>

lemma first_existing_hit:
  "\<forall>p \<in> set pre. \<not> exists f p \<Longrightarrow> exists f location \<Longrightarrow>
     first_existing f (pre @ location # post) = Some location"
  by (induction pre) simp_all

lemma first_existing_miss:
  "\<forall>p \<in> set locs. \<not> exists f p \<Longrightarrow> first_existing f locs = None"
  by (induction locs) simp_all

text \<open>
  Claim C5. Toolchain resolution goes through the fixed list of locations in order and
  returns the first that exists; then the environment variable plays no part. When no
  fixed location exists, the toolchain file below \<^verbatim>\<open>VCPKG_ROOT\<close> is selected if the
  variable is set, not empty, and that file exists; otherwise there is no toolchain.
\<close>

theorem find_vcpkg_toolchain_priority:
  "(possible_locations (home env) = pre @ location # post
      \<and> (\<forall>p \<in> set pre. \<not> exists f p) \<and> exists f location
    \<longrightarrow> find_vcpkg_toolchain env f = Some (str_path (resolve env location))
        \<and> find_vcpkg_toolchain (env\<lparr>vcpkg_root := v\<rparr>) f = find_vcpkg_toolchain env f)
   \<and> ((\<forall>p \<in> set (possible_locations (home env)). \<not> exists f p)
    \<longrightarrow> find_vcpkg_toolchain env f =
          (case vcpkg_root env of
             None \<Rightarrow> None
           | Some root \<Rightarrow>
               if root \<noteq> [] \<and> exists f (parse_path env root @ toolchain_tail)
               then Some (str_path (resolve env (parse_path env root @ toolchain_tail)))
               else None))"
proof (intro conjI impI)
  assume a: "possible_locations (home env) = pre @ location # post
      \<and> (\<forall>p \<in> set pre. \<not> exists f p) \<and> exists f location"
  then have h: "first_existing f (possible_locations (home env)) = Some location"
    using first_existing_hit[of pre f location post] by simp
  then show "find_vcpkg_toolchain env f = Some (str_path (resolve env location))"
    by (simp add: find_vcpkg_toolchain_def)
  from h show "find_vcpkg_toolchain (env\<lparr>vcpkg_root := v\<rparr>) f = find_vcpkg_toolchain env f"
    by (simp add: find_vcpkg_toolchain_def)
next
  assume "\<forall>p \<in> set (possible_locations (home env)). \<not> exists f p"
  then have "first_existing f (possible_locations (home env)) = None"
    by (rule first_existing_miss)
  then show "find_vcpkg_toolchain env f =
          (case vcpkg_root env of
             None \<Rightarrow> None
           | Some root \<Rightarrow>
               if root \<noteq> [] \<and> exists f (parse_path env root @ toolchain_tail)
               then Some (str_path (resolve env (parse_path env root @ toolchain_tail)))
               else None)"
    by (simp add: find_vcpkg_toolchain_def Let_def split: option.splits)
qed

theorem find_vcpkg_toolchain_priority_witness:
  "find_vcpkg_toolchain
     \<lparr>home = [''/'', ''home'', ''u''], parse_path = (\<lambda>s. [s]), resolve = (\<lambda>p. p),
      vcpkg_root = Some ''/opt/vcpkg'', cpu_count = None\<rparr>
     [[''/'', ''home'', ''u'', ''vcpkg'', ''scripts'', ''buildsystems'', ''vcpkg.cmake''] \<mapsto> File,
      [''C:'', ''vcpkg'', ''scripts'', ''buildsystems'', ''vcpkg.cmake''] \<mapsto> File,
      [''/opt/vcpkg'', ''scripts'', ''buildsystems'', ''vcpkg.cmake''] \<mapsto> File]
     = Some ''/home/u/vcpkg/scripts/buildsystems/vcpkg.cmake''
   \<and> find_vcpkg_toolchain
     \<lparr>home = [''/'', ''home'', ''u''], parse_path = (\<lambda>s. [s]), resolve = (\<lambda>p. p),
      vcpkg_root = Some ''/opt/vcpkg'', cpu_count = None\<rparr>
     [[''/opt/vcpkg'', ''scripts'', ''buildsystems'', ''vcpkg.cmake''] \<mapsto> File]
     = Some ''/opt/vcpkg/scripts/buildsystems/vcpkg.cmake''
   \<and> find_vcpkg_toolchain
     \<lparr>home = [''/'', ''home'', ''u''], parse_path = (\<lambda>s. [s]), resolve = (\<lambda>p. p),
      vcpkg_root = Some ''/opt/vcpkg'', cpu_count = None\<rparr>
     Map.empty
     = None"
proof -
  let ?env = "\<lparr>home = [''/'', ''home'', ''u''], parse_path = (\<lambda>s. [s]), resolve = (\<lambda>p. p),
      vcpkg_root = Some ''/opt/vcpkg'', cpu_count = None\<rparr>"
  let ?f1 = "[[''/'', ''home'', ''u'', ''vcpkg'', ''scripts'', ''buildsystems'', ''vcpkg.cmake''] \<mapsto> File,
      [''C:'', ''vcpkg'', ''scripts'', ''buildsystems'', ''vcpkg.cmake''] \<mapsto> File,
      [''/opt/vcpkg'', ''scripts'', ''buildsystems'', ''vcpkg.cmake''] \<mapsto> File]"
  let ?f2 = "[[''/opt/vcpkg'', ''scripts'', ''buildsystems'', ''vcpkg.cmake''] \<mapsto> File]"
  let ?pre = "[[''vcpkg'', ''scripts'', ''buildsystems'', ''vcpkg.cmake'']]"
  let ?loc = "[''/'', ''home'', ''u'', ''vcpkg'', ''scripts'', ''buildsystems'', ''vcpkg.cmake'']"
  let ?post = "[[''/'', ''usr'', ''local'', ''share'', ''vcpkg'', ''scripts'', ''buildsystems'', ''vcpkg.cmake''],
       [''C:'', ''vcpkg'', ''scripts'', ''buildsystems'', ''vcpkg.cmake'']]"
  have h1: "possible_locations (home ?env) = ?pre @ ?loc # ?post
      \<and> (\<forall>p \<in> set ?pre. \<not> exists ?f1 p) \<and> exists ?f1 ?loc"
    by (simp add: possible_locations_def exists_def)
  have a: "find_vcpkg_toolchain ?env ?f1 = Some (str_path (resolve ?env ?loc))"
    using find_vcpkg_toolchain_priority[where env="?env" and f="?f1" and pre="?pre"
        and location="?loc" and post="?post", THEN conjunct1, THEN mp, OF h1]
    by (rule conjunct1)
  have h2: "\<forall>p \<in> set (possible_locations (home ?env)). \<not> exists ?f2 p"
    by (simp add: possible_locations_def exists_def)
  have b: "find_vcpkg_toolchain ?env ?f2 =
          (case vcpkg_root ?env of
             None \<Rightarrow> None
           | Some root \<Rightarrow>
               if root \<noteq> [] \<and> exists ?f2 (parse_path ?env root @ toolchain_tail)
               then Some (str_path (resolve ?env (parse_path ?env root @ toolchain_tail)))
               else None)"
    by (rule find_vcpkg_toolchain_priority[where env="?env" and f="?f2",
          THEN conjunct2, THEN mp, OF h2])
  have h3: "\<forall>p \<in> set (possible_locations (home ?env)). \<not> exists Map.empty p"
    by (simp add: exists_def)
  have c: "find_vcpkg_toolchain ?env Map.empty =
          (case vcpkg_root ?env of
             None \<Rightarrow> None
           | Some root \<Rightarrow>
               if root \<noteq> [] \<and> exists Map.empty (parse_path ?env root @ toolchain_tail)
               then Some (str_path (resolve ?env (parse_path ?env root @ toolchain_tail)))
               else None)"
    by (rule find_vcpkg_toolchain_priority[where env="?env" and f="Map.empty",
          THEN conjunct2, THEN mp, OF h3])
  have a': "find_vcpkg_toolchain ?env ?f1 = Some ''/home/u/vcpkg/scripts/buildsystems/vcpkg.cmake''"
    using a by (simp add: str_path_def)
  have b': "find_vcpkg_toolchain ?env ?f2 = Some ''/opt/vcpkg/scripts/buildsystems/vcpkg.cmake''"
    using b by (simp add: str_path_def exists_def toolchain_tail_def)
  have c': "find_vcpkg_toolchain ?env Map.empty = None"
    using c by (simp add: exists_def)
  from a' b' c' show ?thesis by (intro conjI)
qed

lemma parallel_jobs_explicit: "j \<noteq> 0 \<Longrightarrow> parallel_jobs (Some j) cpus = j"
  by (simp add: parallel_jobs_def)

lemma parallel_jobs_detected:
  "jobs = None \<or> jobs = Some 0 \<Longrightarrow> c \<noteq> 0 \<Longrightarrow> parallel_jobs jobs (Some c) = c"
  by (auto simp: parallel_jobs_def)

lemma parallel_jobs_default:
  "jobs = None \<or> jobs = Some 0 \<Longrightarrow> cpus = None \<or> cpus = Some 0 \<Longrightarrow> parallel_jobs jobs cpus = 4"
  by (auto simp: parallel_jobs_def)

text \<open>
  Claim C8, as stated, fails at \<^verbatim>\<open>--jobs 0\<close>: Python's \<^verbatim>\<open>or\<close> takes 0 for absent, so
  with 8 processors detected the build tool is given \<^verbatim>\<open>--parallel 8\<close>, not
  \<^verbatim>\<open>--parallel 0\<close>.
\<close>

theorem build_args_zero_jobs_counterexample:
  "build_args False (Some 0) (Some 8) = [''cmake'', ''--build'', ''.'', ''--parallel'', ''8'']
   \<and> build_args False (Some 0) (Some 8) \<noteq> [''cmake'', ''--build'', ''.'', ''--parallel'', str_int 0]"
  by (simp add: build_args_def parallel_jobs_def str_int_def digit_char_def)

text \<open>
  Claim C8, amended. Every explicit value of \<^verbatim>\<open>--jobs\<close> other than 0 is passed to
  \<^verbatim>\<open>--parallel\<close> as it is. Without a value, or with the value 0, the detected
  processor count is passed when there is one and it is not 0, and 4 otherwise.
\<close>

theorem build_args_parallel:
  "(j \<noteq> 0 \<longrightarrow>
      build_args verbose (Some j) cpus =
        [''cmake'', ''--build'', ''.''] @ (if verbose then [''--verbose''] else [])
        @ [''--parallel'', str_int j])
   \<and> ((jobs = None \<or> jobs = Some 0) \<and> c \<noteq> 0 \<longrightarrow>
      build_args verbose jobs (Some c) =
        [''cmake'', ''--build'', ''.''] @ (if verbose then [''--verbose''] else [])
        @ [''--parallel'', str_int c])
   \<and> ((jobs = None \<or> jobs = Some 0) \<and> (cpus = None \<or> cpus = Some 0) \<longrightarrow>
      build_args verbose jobs cpus =
        [''cmake'', ''--build'', ''.''] @ (if verbose then [''--verbose''] else [])
        @ [''--parallel'', ''4''])"
proof (intro conjI impI)
  assume "j \<noteq> 0"
  then show "build_args verbose (Some j) cpus =
        [''cmake'', ''--build'', ''.''] @ (if verbose then [''--verbose''] else [])
        @ [''--parallel'', str_int j]"
    by (simp add: build_args_def parallel_jobs_explicit)
next
  assume "(jobs = None \<or> jobs = Some 0) \<and> c \<noteq> 0"
  then show "build_args verbose jobs (Some c) =
        [''cmake'', ''--build'', ''.''] @ (if verbose then [''--verbose''] else [])
        @ [''--parallel'', str_int c]"
    by (simp add: build_args_def parallel_jobs_detected)
next
  assume "(jobs = None \<or> jobs = Some 0) \<and> (cpus = None \<or> cpus = Some 0)"
  then have "parallel_jobs jobs cpus = 4" by (simp add: parallel_jobs_default)
  then show "build_args verbose jobs cpus =
        [''cmake'', ''--build'', ''.''] @ (if verbose then [''--verbose''] else [])
        @ [''--parallel'', ''4'']"
    by (simp add: build_args_def str_int_def digit_char_def)
qed

theorem build_args_parallel_witness:
  "(3::int) \<noteq> 0
   \<and> build_args True (Some 3) (Some 8) = [''cmake'', ''--build'', ''.'', ''--verbose'', ''--parallel'', ''3'']
   \<and> build_args False None (Some 8) = [''cmake'', ''--build'', ''.'', ''--parallel'', ''8'']
   \<and> build_args False None None = [''cmake'', ''--build'', ''.'', ''--parallel'', ''4'']"
proof -
  have s3: "str_int 3 = ''3''" and s8: "str_int 8 = ''8''"
    by (simp_all add: str_int_def digit_char_def)
  have a: "build_args True (Some 3) (Some 8) = [''cmake'', ''--build'', ''.'', ''--verbose'', ''--parallel'', ''3'']"
    using build_args_parallel[where j=3 and verbose=True and cpus="Some 8", THEN conjunct1] s3 by simp
  have b: "build_args False None (Some 8) = [''cmake'', ''--build'', ''.'', ''--parallel'', ''8'']"
    using build_args_parallel[where verbose=False and jobs=None and c=8, THEN conjunct2, THEN conjunct1] s8 by simp
  have c: "build_args False None None = [''cmake'', ''--build'', ''.'', ''--parallel'', ''4'']"
    using build_args_parallel[where verbose=False and jobs=None and cpus=None, THEN conjunct2, THEN conjunct2] by simp
  from a b c show ?thesis by simp
qed

lemma fs_print: "fs (print l w) = fs w"
  by (simp add: print_def)

lemma console_print: "console (print l w) = console w @ [l]"
  by (simp add: print_def)

text \<open>
  Claim C7. With \<^verbatim>\<open>--clean\<close> set and a build directory in place, the directory is
  removed with everything below it and created again empty, and the configuration step
  starts from that file system; nothing outside the build directory changes. With
  \<^verbatim>\<open>--clean\<close> unset the configuration step starts from the file system as it was
  found: nothing is removed.
\<close>

theorem clean_removes_before_configure:
  "fs w (root @ [''build'']) = Some Dir \<longrightarrow>
     (\<exists>w1. prepare_build_dir True (root @ [''build'']) w = Inr w1
           \<and> build_main env proc root mode tests True verbose export jobs w
             = configure_and_build env proc root mode tests verbose export jobs w1
           \<and> fs w1 (root @ [''build'']) = Some Dir
           \<and> (\<forall>p. strict_prefix (root @ [''build'']) p \<longrightarrow> fs w1 p = None)
           \<and> (\<forall>p. \<not> prefix (root @ [''build'']) p \<longrightarrow> fs w1 p = fs w p))
     \<and> prepare_build_dir False (root @ [''build'']) w = Inr w
     \<and> build_main env proc root mode tests False verbose export jobs w
         = configure_and_build env proc root mode tests verbose export jobs w"
proof
  assume d: "fs w (root @ [''build'']) = Some Dir"
  let ?bd = "root @ [''build'']"
  let ?w1 = "(print (Info ''Build directory cleaned'')
               (w\<lparr>fs := \<lambda>p. if prefix ?bd p then None else fs w p\<rparr>))
             \<lparr>fs := (\<lambda>p. if prefix ?bd p then None else fs w p)(?bd \<mapsto> Dir)\<rparr>"
  have p1: "prepare_build_dir True ?bd w = Inr ?w1"
    using d by (simp add: prepare_build_dir_def exists_def rmtree_def mkdir_exist_ok_def fs_print)
  have p2: "prepare_build_dir False ?bd w = Inr w"
    using d by (simp add: prepare_build_dir_def mkdir_exist_ok_def)
  have a: "build_main env proc root mode tests True verbose export jobs w
             = configure_and_build env proc root mode tests verbose export jobs ?w1"
    by (simp only: build_main_def p1 sum.case)
  have b: "fs ?w1 ?bd = Some Dir" by simp
  have c: "\<forall>p. strict_prefix ?bd p \<longrightarrow> fs ?w1 p = None"
    by (auto simp: strict_prefix_def)
  have e: "\<forall>p. \<not> prefix ?bd p \<longrightarrow> fs ?w1 p = fs w p"
    by auto
  have f: "build_main env proc root mode tests False verbose export jobs w
         = configure_and_build env proc root mode tests verbose export jobs w"
    by (simp only: build_main_def p2 sum.case)
  from p1 a b c e have g: "\<exists>w1. prepare_build_dir True (root @ [''build'']) w = Inr w1
           \<and> build_main env proc root mode tests True verbose export jobs w
             = configure_and_build env proc root mode tests verbose export jobs w1
           \<and> fs w1 (root @ [''build'']) = Some Dir
           \<and> (\<forall>p. strict_prefix (root @ [''build'']) p \<longrightarrow> fs w1 p = None)
           \<and> (\<forall>p. \<not> prefix (root @ [''build'']) p \<longrightarrow> fs w1 p = fs w p)"
    by (intro exI[of _ ?w1] conjI)
  from g p2 f show "(\<exists>w1. prepare_build_dir True (root @ [''build'']) w = Inr w1
           \<and> build_main env proc root mode tests True verbose export jobs w
             = configure_and_build env proc root mode tests verbose export jobs w1
           \<and> fs w1 (root @ [''build'']) = Some Dir
           \<and> (\<forall>p. strict_prefix (root @ [''build'']) p \<longrightarrow> fs w1 p = None)
           \<and> (\<forall>p. \<not> prefix (root @ [''build'']) p \<longrightarrow> fs w1 p = fs w p))
     \<and> prepare_build_dir False (root @ [''build'']) w = Inr w
     \<and> build_main env proc root mode tests False verbose export jobs w
         = configure_and_build env proc root mode tests verbose export jobs w"
    by (intro conjI)
qed

theorem clean_removes_before_configure_witness:
  "fs \<lparr>fs = [[''p'', ''build''] \<mapsto> Dir, [''p'', ''build'', ''old.o''] \<mapsto> File], console = []\<rparr>
      ([''p''] @ [''build'']) = Some Dir
   \<and> (\<exists>w1. prepare_build_dir True ([''p''] @ [''build''])
               \<lparr>fs = [[''p'', ''build''] \<mapsto> Dir, [''p'', ''build'', ''old.o''] \<mapsto> File],
                console = []\<rparr> = Inr w1
            \<and> fs w1 [''p'', ''build'', ''old.o''] = None)
   \<and> prepare_build_dir False ([''p''] @ [''build''])
               \<lparr>fs = [[''p'', ''build''] \<mapsto> Dir, [''p'', ''build'', ''old.o''] \<mapsto> File],
                console = []\<rparr>
       = Inr \<lparr>fs = [[''p'', ''build''] \<mapsto> Dir, [''p'', ''build'', ''old.o''] \<mapsto> File],
                console = []\<rparr>"
proof -
  let ?w = "\<lparr>fs = [[''p'', ''build''] \<mapsto> Dir, [''p'', ''build'', ''old.o''] \<mapsto> File],
             console = []\<rparr>"
  have h: "fs ?w ([''p''] @ [''build'']) = Some Dir" by simp
  note t = clean_removes_before_configure[where w="?w" and root="[''p'']", THEN mp, OF h]
  from t obtain w1 where 1: "prepare_build_dir True ([''p''] @ [''build'']) ?w = Inr w1"
    and 2: "\<forall>p. strict_prefix ([''p''] @ [''build'']) p \<longrightarrow> fs w1 p = None"
    by blast
  have "strict_prefix ([''p''] @ [''build'']) [''p'', ''build'', ''old.o'']"
    by (simp add: strict_prefix_def)
  with 2 have 3: "fs w1 [''p'', ''build'', ''old.o''] = None" by blast
  from 1 3 have 4: "\<exists>w1. prepare_build_dir True ([''p''] @ [''build'']) ?w = Inr w1
            \<and> fs w1 [''p'', ''build'', ''old.o''] = None" by blast
  from t have 5: "prepare_build_dir False ([''p''] @ [''build'']) ?w = Inr ?w"
    by (rule conjunct2[THEN conjunct1])
  from h 4 5 show ?thesis by (intro conjI)
qed









section \<open>Formatter runner\<close>

lemma format_loop_all_pass:
  "\<forall>file \<in> set files. formatter (format_cmd file) = 0 \<Longrightarrow>
     format_loop formatter files l =
       (Returns (), \<lparr>started = started l @ map format_cmd files,
                     printed = printed l @ map (\<lambda>file. Passed (name file)) files\<rparr>)"
  by (induction files arbitrary: l) (simp_all add: format_file_def)

lemma format_loop_first_failure:
  assumes "\<forall>file \<in> set pre. formatter (format_cmd file) = 0"
    and "formatter (format_cmd bad) \<noteq> 0"
  shows "format_loop formatter (pre @ bad # post) l =
       (Raises (CalledProcessError (formatter (format_cmd bad))),
        \<lparr>started = started l @ map format_cmd (pre @ [bad]),
         printed = printed l @ map (\<lambda>file. Passed (name file)) pre\<rparr>)"
  using assms by (induction pre arbitrary: l) (simp_all add: format_file_def)

text \<open>
  Claim C9. In apply mode, when the formatter exits with a non-zero code on a file, the
  run ends at once with the uncaught \<^verbatim>\<open>CalledProcessError\<close>: the formatter has been
  started on the files up to and including the failing one, in the sorted order of the
  discovery, and on none after it, and nothing but the lines of the files that passed has
  been printed.
\<close>

theorem format_apply_stops_at_first_failure:
  assumes "clang_format_installed"
    and "find_cpp_files format_extensions exclude_dirs pd tr = pre @ bad # post"
    and "\<forall>file \<in> set pre. formatter (format_cmd file) = 0"
    and "formatter (format_cmd bad) \<noteq> 0"
  shows "fst (format_main clang_format_installed formatter pd tr False)
           = Raises (CalledProcessError (formatter (format_cmd bad)))
       \<and> started (snd (format_main clang_format_installed formatter pd tr False))
           = map format_cmd (pre @ [bad])
       \<and> printed (snd (format_main clang_format_installed formatter pd tr False))
           = map (\<lambda>file. Passed (name file)) pre"
  using assms format_loop_first_failure[OF assms(3,4), of post "\<lparr>started = [], printed = []\<rparr>"]
  by (simp add: format_main_def Let_def)

lemma example_discovery:
  "find_cpp_files format_extensions exclude_dirs [''p''] [[''b.cc''], [''a.h''], [''c.cpp'']]
     = [[''p'', ''a.h''], [''p'', ''b.cc''], [''p'', ''c.cpp'']]"
  by code_simp

theorem format_apply_stops_at_first_failure_witness:
  "find_cpp_files format_extensions exclude_dirs [''p''] [[''b.cc''], [''a.h''], [''c.cpp'']]
     = [[''p'', ''a.h'']] @ [''p'', ''b.cc''] # [[''p'', ''c.cpp'']]
   \<and> fst (format_main True (\<lambda>cmd. if cmd = [''clang-format'', ''-i'', ''p/b.cc''] then 3 else 0)
            [''p''] [[''b.cc''], [''a.h''], [''c.cpp'']] False)
       = Raises (CalledProcessError 3)
   \<and> started (snd (format_main True
            (\<lambda>cmd. if cmd = [''clang-format'', ''-i'', ''p/b.cc''] then 3 else 0)
            [''p''] [[''b.cc''], [''a.h''], [''c.cpp'']] False))
       = [[''clang-format'', ''-i'', ''p/a.h''], [''clang-format'', ''-i'', ''p/b.cc'']]"
proof -
  let ?fmt = "\<lambda>cmd::string list. if cmd = [''clang-format'', ''-i'', ''p/b.cc''] then 3 else (0::int)"
  have h1: "True" by simp
  have h2: "find_cpp_files format_extensions exclude_dirs [''p''] [[''b.cc''], [''a.h''], [''c.cpp'']]
     = [[''p'', ''a.h'']] @ [''p'', ''b.cc''] # [[''p'', ''c.cpp'']]"
    using example_discovery by simp
  have h3: "\<forall>file \<in> set [[''p'', ''a.h'']]. ?fmt (format_cmd file) = 0"
    by (simp add: format_cmd_def str_path_def)
  have h4: "?fmt (format_cmd [''p'', ''b.cc'']) \<noteq> 0"
    by (simp add: format_cmd_def str_path_def)
  note t = format_apply_stops_at_first_failure[OF h1 h2 h3 h4]
  have a: "fst (format_main True ?fmt [''p''] [[''b.cc''], [''a.h''], [''c.cpp'']] False)
       = Raises (CalledProcessError 3)"
    using t[THEN conjunct1] by (simp add: format_cmd_def str_path_def)
  have b: "started (snd (format_main True ?fmt [''p''] [[''b.cc''], [''a.h''], [''c.cpp'']] False))
       = [[''clang-format'', ''-i'', ''p/a.h''], [''clang-format'', ''-i'', ''p/b.cc'']]"
    using t[THEN conjunct2, THEN conjunct1] by (simp add: format_cmd_def str_path_def)
  from h2 a b show ?thesis by (intro conjI)
qed

section \<open>Lint runner\<close>







lemma lint_result_file: "fst (lint_result env cc fix file) = file"
  by (cases "analyzer env (lint_cmd env cc fix file)") (simp add: lint_result_def)





















lemma can_move_iff: "can_move s \<longleftrightarrow> (\<exists>e. enabled e s)"
proof
  assume "can_move s"
  then consider "\<not> cancelled s" "in_flight s \<noteq> []"
    | "\<not> cancelled s" "waiting s \<noteq> []" "0 < sem s"
    | "\<not> cancelled s" "crashed s"
    by (auto simp: can_move_def)
  then show "\<exists>e. enabled e s"
  proof cases
    case 1
    then have "enabled (Complete (hd (in_flight s))) s" by simp
    then show ?thesis ..
  next
    case 2
    then have "enabled (Acquire (hd (waiting s))) s" by simp
    then show ?thesis ..
  next
    case 3
    then have "enabled Cancel s" by simp
    then show ?thesis ..
  qed
next
  assume "\<exists>e. enabled e s"
  then obtain e where e: "enabled e s" ..
  then show "can_move s"
    by (cases e) (auto simp: can_move_def)
qed

lemma stuck_forever: "\<not> can_move s \<Longrightarrow> run_events env cc fix events s = s"
proof (induction events)
  case Nil
  then show ?case by simp
next
  case (Cons e events)
  from Cons.prems have "\<not> enabled e s" using can_move_iff by blast
  with Cons show ?case by (simp add: step_def)
qed

























section \<open>Header files\<close>















end
